theory Spec2Isabelle
  imports Main "HOL-Library.Word"
begin

section \<open>Platform constants\<close>

text \<open>
  The header \<^verbatim>\<open>strtoi_generic.h\<close> takes the integer limits from \<^verbatim>\<open><limits.h>\<close> and the
  error numbers from \<^verbatim>\<open><errno.h>\<close>. Their values are those of the Linux LP64 ABI
  (x86-64 with glibc): \<^verbatim>\<open>char\<close> has 8 bits and is signed, \<^verbatim>\<open>short\<close> has 16 bits,
  \<^verbatim>\<open>int\<close> 32 bits, \<^verbatim>\<open>long\<close> and \<^verbatim>\<open>long long\<close> 64 bits.

  A value of type \<^verbatim>\<open>long long\<close> or \<^verbatim>\<open>unsigned long long\<close> is a 64-bit word; \<open>sint\<close>
  reads it as \<^verbatim>\<open>long long\<close>, \<open>uint\<close> as \<^verbatim>\<open>unsigned long long\<close>, and the casts between
  the two types keep the bits. A C string is the list of its characters before the
  terminating NUL.
\<close>

type_synonym llong = "64 word"
type_synonym ullong = "64 word"

definition EINVAL :: int where "EINVAL = 22"
definition ERANGE :: int where "ERANGE = 34"
definition ENOTSUP :: int where "ENOTSUP = 95"

definition CHAR_MIN :: int where "CHAR_MIN = - 128"
definition CHAR_MAX :: int where "CHAR_MAX = 127"
definition SCHAR_MIN :: int where "SCHAR_MIN = - 128"
definition SCHAR_MAX :: int where "SCHAR_MAX = 127"
definition SHRT_MIN :: int where "SHRT_MIN = - 32768"
definition SHRT_MAX :: int where "SHRT_MAX = 32767"
definition INT_MIN :: int where "INT_MIN = - 2147483648"
definition INT_MAX :: int where "INT_MAX = 2147483647"
definition LONG_MIN :: int where "LONG_MIN = - 9223372036854775808"
definition LONG_MAX :: int where "LONG_MAX = 9223372036854775807"
definition LLONG_MIN :: int where "LLONG_MIN = - 9223372036854775808"
definition LLONG_MAX :: int where "LLONG_MAX = 9223372036854775807"
definition UCHAR_MAX :: int where "UCHAR_MAX = 255"
definition USHRT_MAX :: int where "USHRT_MAX = 65535"
definition UINT_MAX :: int where "UINT_MAX = 4294967295"
definition ULONG_MAX :: int where "ULONG_MAX = 18446744073709551615"
definition ULLONG_MAX :: int where "ULLONG_MAX = 18446744073709551615"

section \<open>Type dispatch\<close>

text \<open>
  The type of the destination variable \<^verbatim>\<open>*res\<close>, as \<^verbatim>\<open>_Generic\<close> sees it. \<open>T_other\<close>
  stands for every type that none of the three selections lists (\<^verbatim>\<open>_Bool\<close>, \<^verbatim>\<open>float\<close>,
  a pointer, ...); plain \<^verbatim>\<open>char\<close> is a type of its own, distinct from \<^verbatim>\<open>signed char\<close>
  and \<^verbatim>\<open>unsigned char\<close>.
\<close>

datatype ctype =
    T_char
  | T_schar | T_short | T_int | T_long | T_llong
  | T_uchar | T_ushort | T_uint | T_ulong | T_ullong
  | T_other

datatype strtoi_generic_typename =
    STRTOI_GENERIC_TYPENAME_OTHER
  | STRTOI_GENERIC_TYPENAME_SIGNED
  | STRTOI_GENERIC_TYPENAME_SIGNED_CHAR
  | STRTOI_GENERIC_TYPENAME_SIGNED_SHORT
  | STRTOI_GENERIC_TYPENAME_SIGNED_INT
  | STRTOI_GENERIC_TYPENAME_SIGNED_LONG
  | STRTOI_GENERIC_TYPENAME_SIGNED_LONG_LONG
  | STRTOI_GENERIC_TYPENAME_UNSIGNED
  | STRTOI_GENERIC_TYPENAME_UNSIGNED_CHAR
  | STRTOI_GENERIC_TYPENAME_UNSIGNED_SHORT
  | STRTOI_GENERIC_TYPENAME_UNSIGNED_INT
  | STRTOI_GENERIC_TYPENAME_UNSIGNED_LONG
  | STRTOI_GENERIC_TYPENAME_UNSIGNED_LONG_LONG

text \<open>The integer value of each enumerator: \<open>OTHER = 0\<close>, \<open>SIGNED = 1\<close> and
  \<open>UNSIGNED = SCHAR_MAX\<close> are given, the others count on from their predecessor.\<close>

fun enum_val :: "strtoi_generic_typename \<Rightarrow> int" where
  "enum_val STRTOI_GENERIC_TYPENAME_OTHER = 0"
| "enum_val STRTOI_GENERIC_TYPENAME_SIGNED = 1"
| "enum_val STRTOI_GENERIC_TYPENAME_SIGNED_CHAR = 2"
| "enum_val STRTOI_GENERIC_TYPENAME_SIGNED_SHORT = 3"
| "enum_val STRTOI_GENERIC_TYPENAME_SIGNED_INT = 4"
| "enum_val STRTOI_GENERIC_TYPENAME_SIGNED_LONG = 5"
| "enum_val STRTOI_GENERIC_TYPENAME_SIGNED_LONG_LONG = 6"
| "enum_val STRTOI_GENERIC_TYPENAME_UNSIGNED = SCHAR_MAX"
| "enum_val STRTOI_GENERIC_TYPENAME_UNSIGNED_CHAR = SCHAR_MAX + 1"
| "enum_val STRTOI_GENERIC_TYPENAME_UNSIGNED_SHORT = SCHAR_MAX + 2"
| "enum_val STRTOI_GENERIC_TYPENAME_UNSIGNED_INT = SCHAR_MAX + 3"
| "enum_val STRTOI_GENERIC_TYPENAME_UNSIGNED_LONG = SCHAR_MAX + 4"
| "enum_val STRTOI_GENERIC_TYPENAME_UNSIGNED_LONG_LONG = SCHAR_MAX + 5"

fun STRTOI_GENERIC_TYPENAME :: "ctype \<Rightarrow> strtoi_generic_typename" where
  "STRTOI_GENERIC_TYPENAME T_schar = STRTOI_GENERIC_TYPENAME_SIGNED_CHAR"
| "STRTOI_GENERIC_TYPENAME T_short = STRTOI_GENERIC_TYPENAME_SIGNED_SHORT"
| "STRTOI_GENERIC_TYPENAME T_int = STRTOI_GENERIC_TYPENAME_SIGNED_INT"
| "STRTOI_GENERIC_TYPENAME T_long = STRTOI_GENERIC_TYPENAME_SIGNED_LONG"
| "STRTOI_GENERIC_TYPENAME T_llong = STRTOI_GENERIC_TYPENAME_SIGNED_LONG_LONG"
| "STRTOI_GENERIC_TYPENAME T_uchar = STRTOI_GENERIC_TYPENAME_UNSIGNED_CHAR"
| "STRTOI_GENERIC_TYPENAME T_ushort = STRTOI_GENERIC_TYPENAME_UNSIGNED_SHORT"
| "STRTOI_GENERIC_TYPENAME T_uint = STRTOI_GENERIC_TYPENAME_UNSIGNED_INT"
| "STRTOI_GENERIC_TYPENAME T_ulong = STRTOI_GENERIC_TYPENAME_UNSIGNED_LONG"
| "STRTOI_GENERIC_TYPENAME T_ullong = STRTOI_GENERIC_TYPENAME_UNSIGNED_LONG_LONG"
| "STRTOI_GENERIC_TYPENAME _ = STRTOI_GENERIC_TYPENAME_OTHER"

text \<open>The inner selections \<^verbatim>\<open>__STRTOI_GENERIC_INTMIN\<close> and \<^verbatim>\<open>__STRTOI_GENERIC_INTMAX\<close>
  (an Isabelle name cannot start with an underscore).\<close>

fun inner_STRTOI_GENERIC_INTMIN :: "ctype \<Rightarrow> int" where
  "inner_STRTOI_GENERIC_INTMIN T_char = CHAR_MIN"
| "inner_STRTOI_GENERIC_INTMIN T_schar = SCHAR_MIN"
| "inner_STRTOI_GENERIC_INTMIN T_short = SHRT_MIN"
| "inner_STRTOI_GENERIC_INTMIN T_int = INT_MIN"
| "inner_STRTOI_GENERIC_INTMIN T_long = LONG_MIN"
| "inner_STRTOI_GENERIC_INTMIN T_llong = LLONG_MIN"
| "inner_STRTOI_GENERIC_INTMIN T_uchar = 0"
| "inner_STRTOI_GENERIC_INTMIN T_ushort = 0"
| "inner_STRTOI_GENERIC_INTMIN T_uint = 0"
| "inner_STRTOI_GENERIC_INTMIN T_ulong = 0"
| "inner_STRTOI_GENERIC_INTMIN T_ullong = 0"
| "inner_STRTOI_GENERIC_INTMIN T_other = 0"

fun inner_STRTOI_GENERIC_INTMAX :: "ctype \<Rightarrow> int" where
  "inner_STRTOI_GENERIC_INTMAX T_char = CHAR_MAX"
| "inner_STRTOI_GENERIC_INTMAX T_schar = SCHAR_MAX"
| "inner_STRTOI_GENERIC_INTMAX T_short = SHRT_MAX"
| "inner_STRTOI_GENERIC_INTMAX T_int = INT_MAX"
| "inner_STRTOI_GENERIC_INTMAX T_long = LONG_MAX"
| "inner_STRTOI_GENERIC_INTMAX T_llong = LLONG_MAX"
| "inner_STRTOI_GENERIC_INTMAX T_uchar = UCHAR_MAX"
| "inner_STRTOI_GENERIC_INTMAX T_ushort = USHRT_MAX"
| "inner_STRTOI_GENERIC_INTMAX T_uint = UINT_MAX"
| "inner_STRTOI_GENERIC_INTMAX T_ulong = ULONG_MAX"
| "inner_STRTOI_GENERIC_INTMAX T_ullong = ULLONG_MAX"
| "inner_STRTOI_GENERIC_INTMAX T_other = 0"

text \<open>The outer macros cast the limit to \<^verbatim>\<open>long long\<close> and \<^verbatim>\<open>unsigned long long\<close>.\<close>

definition STRTOI_GENERIC_INTMIN :: "ctype \<Rightarrow> llong" where
  "STRTOI_GENERIC_INTMIN x = word_of_int (inner_STRTOI_GENERIC_INTMIN x)"

definition STRTOI_GENERIC_INTMAX :: "ctype \<Rightarrow> ullong" where
  "STRTOI_GENERIC_INTMAX x = word_of_int (inner_STRTOI_GENERIC_INTMAX x)"

section \<open>The library parsers \<^verbatim>\<open>strtoll\<close> and \<^verbatim>\<open>strtoull\<close>\<close>

text \<open>
  \<^verbatim>\<open>strtoll\<close> and \<^verbatim>\<open>strtoull\<close> belong to the C library, not to this repository. They are
  modelled after ISO C17 7.22.1.4 in the "C" locale, with the choices of glibc where the
  standard leaves one open (an unsupported base sets \<^verbatim>\<open>errno\<close> to \<^verbatim>\<open>EINVAL\<close>, returns 0 and
  does not store \<^verbatim>\<open>*endptr\<close>; a failed conversion leaves \<^verbatim>\<open>errno\<close> alone). The binary
  prefix \<^verbatim>\<open>0b\<close> of C23 is not modelled.
\<close>

definition isspace :: "char \<Rightarrow> bool" where
  "isspace c \<longleftrightarrow> c = CHR '' '' \<or> (9 \<le> (of_char c :: nat) \<and> (of_char c :: nat) \<le> 13)"

text \<open>The value of a character as a digit: \<^verbatim>\<open>0\<close>--\<^verbatim>\<open>9\<close>, then the letters of either case
  from 10 to 35.\<close>

definition digit_val :: "char \<Rightarrow> nat option" where
  "digit_val c =
    (let n = (of_char c :: nat) in
     if 48 \<le> n \<and> n \<le> 57 then Some (n - 48)
     else if 65 \<le> n \<and> n \<le> 90 then Some (n - 55)
     else if 97 \<le> n \<and> n \<le> 122 then Some (n - 87)
     else None)"

text \<open>The digit loop: it stops at the first character that is no digit of the base and
  returns the accumulated magnitude (unbounded; the callers test it against the limit of
  their type) with the rest of the string.\<close>

fun scan_digits :: "nat \<Rightarrow> string \<Rightarrow> nat \<Rightarrow> nat \<times> string" where
  "scan_digits b [] i = (i, [])"
| "scan_digits b (c # cs) i =
    (case digit_val c of
       None \<Rightarrow> (i, c # cs)
     | Some d \<Rightarrow> if d < b then scan_digits b cs (i * b + d) else (i, c # cs))"

fun scan_sign :: "string \<Rightarrow> bool \<times> string" where
  "scan_sign [] = (False, [])"
| "scan_sign (c # cs) =
    (if c = CHR ''-'' then (True, cs)
     else if c = CHR ''+'' then (False, cs)
     else (False, c # cs))"

text \<open>The number prefix; base 0 is resolved here to 16, 8 or 10.\<close>

fun scan_prefix :: "int \<Rightarrow> string \<Rightarrow> nat \<times> string" where
  "scan_prefix base (c # x # cs) =
    (if c = CHR ''0'' then
       (if (base = 0 \<or> base = 16) \<and> (x = CHR ''x'' \<or> x = CHR ''X'') then (16, cs)
        else if base = 0 then (8, c # x # cs)
        else (nat base, c # x # cs))
     else if base = 0 then (10, c # x # cs)
     else (nat base, c # x # cs))"
| "scan_prefix base [c] =
    (if c = CHR ''0'' \<and> base = 0 then (8, [c])
     else if base = 0 then (10, [c])
     else (nat base, [c]))"
| "scan_prefix base [] = (if base = 0 then 10 else nat base, [])"

text \<open>The outcome of the scan: no conversion, with the offset stored in \<^verbatim>\<open>*endptr\<close>; or a
  conversion with the sign, the magnitude and the offset of the first unconverted
  character.\<close>

datatype scan = NoConv nat | Conv bool nat nat

definition strto_scan :: "string \<Rightarrow> int \<Rightarrow> scan" where
  "strto_scan nptr base =
    (let s = dropWhile isspace nptr in
     if s = [] then NoConv 0
     else
       let (negative, s) = scan_sign s;
           (b, save) = scan_prefix base s;
           (i, s) = scan_digits b save 0
       in if s = save then
            (let off = length nptr - length save in
             if 2 \<le> off \<and> (nptr ! (off - 1) = CHR ''x'' \<or> nptr ! (off - 1) = CHR ''X'')
                 \<and> nptr ! (off - 2) = CHR ''0''
             then NoConv (off - 1) else NoConv 0)
          else Conv negative i (length nptr - length s))"

text \<open>What a call leaves behind: the returned value, the offset stored in \<^verbatim>\<open>*endptr\<close>
  (\<open>None\<close> when nothing is stored) and \<^verbatim>\<open>errno\<close>, which the caller has set to 0 before.\<close>

record strto_result =
  ret_val :: "64 word"
  endptr :: "nat option"
  errno :: int

definition strtoull :: "string \<Rightarrow> int \<Rightarrow> strto_result" where
  "strtoull nptr base =
    (if base < 0 \<or> base = 1 \<or> base > 36
     then \<lparr>ret_val = 0, endptr = None, errno = EINVAL\<rparr>
     else case strto_scan nptr base of
       NoConv e \<Rightarrow> \<lparr>ret_val = 0, endptr = Some e, errno = 0\<rparr>
     | Conv negative i e \<Rightarrow>
         if int i > ULLONG_MAX
         then \<lparr>ret_val = word_of_int ULLONG_MAX, endptr = Some e, errno = ERANGE\<rparr>
         else \<lparr>ret_val = (if negative then - word_of_nat i else word_of_nat i),
               endptr = Some e, errno = 0\<rparr>)"

definition strtoll :: "string \<Rightarrow> int \<Rightarrow> strto_result" where
  "strtoll nptr base =
    (if base < 0 \<or> base = 1 \<or> base > 36
     then \<lparr>ret_val = 0, endptr = None, errno = EINVAL\<rparr>
     else case strto_scan nptr base of
       NoConv e \<Rightarrow> \<lparr>ret_val = 0, endptr = Some e, errno = 0\<rparr>
     | Conv negative i e \<Rightarrow>
         if int i > (if negative then - LLONG_MIN else LLONG_MAX)
         then \<lparr>ret_val = word_of_int (if negative then LLONG_MIN else LLONG_MAX),
               endptr = Some e, errno = ERANGE\<rparr>
         else \<lparr>ret_val = (if negative then - word_of_nat i else word_of_nat i),
               endptr = Some e, errno = 0\<rparr>)"

section \<open>The conversion\<close>

text \<open>
  \<^verbatim>\<open>strtoi_generic_func\<close> returns its \<^verbatim>\<open>int\<close> result together with the content of
  \<^verbatim>\<open>*num\<close> after the call; the last argument is the content of \<^verbatim>\<open>*num\<close> before it.
  The parameters \<^verbatim>\<open>min\<close> and \<^verbatim>\<open>max\<close> are \<open>min_v\<close> and \<open>max_v\<close> here.

  The local \<^verbatim>\<open>endptr\<close> is not initialised. When the library stores nothing in it (an
  unsupported base), the test \<^verbatim>\<open>str == endptr || *endptr != '\0'\<close> compares and
  dereferences an indeterminate pointer before the \<^verbatim>\<open>errno\<close> test is reached: the
  behaviour of the call is undefined, and the result is \<open>None\<close>.
\<close>

definition strtoi_generic_func ::
  "string \<Rightarrow> llong \<Rightarrow> ullong \<Rightarrow> strtoi_generic_typename \<Rightarrow> int \<Rightarrow> llong
     \<Rightarrow> (int \<times> llong) option" where
  "strtoi_generic_func str min_v max_v type base num =
    (if enum_val type = 0 then Some (- ENOTSUP, num)
     else
       let r = (if enum_val type > enum_val STRTOI_GENERIC_TYPENAME_UNSIGNED
                then strtoull str base else strtoll str base);
           ret = ret_val r
       in case endptr r of
            None \<Rightarrow> None
          | Some e \<Rightarrow>
              if e = 0 \<or> e < length str \<or> (errno r \<noteq> 0 \<and> errno r \<noteq> ERANGE)
              then Some (- EINVAL, num)
              else if errno r = ERANGE then Some (- ERANGE, num)
              else if (if enum_val type > enum_val STRTOI_GENERIC_TYPENAME_UNSIGNED
                       then CHR ''-'' \<in> set str \<or> max_v < ret
                       else ret <s min_v \<or> (0 <s ret \<and> max_v < ret))
              then Some (- ERANGE, num)
              else Some (0, ret))"

text \<open>The cast \<^verbatim>\<open>(typeof(*_res))num\<close>, with the value of the destination variable as an
  integer. For plain \<^verbatim>\<open>char\<close> and for a type outside the list the assignment is never
  reached.\<close>

fun cast_to :: "ctype \<Rightarrow> llong \<Rightarrow> int" where
  "cast_to T_schar num = sint (ucast num :: 8 word)"
| "cast_to T_short num = sint (ucast num :: 16 word)"
| "cast_to T_int num = sint (ucast num :: 32 word)"
| "cast_to T_long num = sint num"
| "cast_to T_llong num = sint num"
| "cast_to T_uchar num = uint (ucast num :: 8 word)"
| "cast_to T_ushort num = uint (ucast num :: 16 word)"
| "cast_to T_uint num = uint (ucast num :: 32 word)"
| "cast_to T_ulong num = uint num"
| "cast_to T_ullong num = uint num"
| "cast_to T_char num = sint (ucast num :: 8 word)"
| "cast_to T_other num = sint num"

text \<open>
  The macro \<^verbatim>\<open>strtoi_base_generic(str, base, res)\<close>: \<open>ty\<close> is the type of \<^verbatim>\<open>*res\<close>, \<open>res\<close>
  its value before the call and \<open>num0\<close> whatever the uninitialised local \<^verbatim>\<open>num\<close> holds.
  The result is the value of the macro and the value of \<^verbatim>\<open>*res\<close> afterwards, or \<open>None\<close>
  when the behaviour of the function call is undefined.
\<close>

definition strtoi_base_generic ::
  "string \<Rightarrow> int \<Rightarrow> ctype \<Rightarrow> int \<Rightarrow> llong \<Rightarrow> (int \<times> int) option" where
  "strtoi_base_generic str base ty res num0 =
    (case strtoi_generic_func str
            (STRTOI_GENERIC_INTMIN ty)
            (STRTOI_GENERIC_INTMAX ty)
            (STRTOI_GENERIC_TYPENAME ty)
            base num0 of
       None \<Rightarrow> None
     | Some (ret, num) \<Rightarrow> Some (ret, if ret \<ge> 0 then cast_to ty num else res))"

definition strtoi_generic :: "string \<Rightarrow> ctype \<Rightarrow> int \<Rightarrow> llong \<Rightarrow> (int \<times> int) option" where
  "strtoi_generic str ty res num0 = strtoi_base_generic str 0 ty res num0"

section \<open>The specification's reading of a text\<close>

text \<open>
  The definitions of this section do not come from the code. They state, in the words of
  the specification and of the C standard's description of the subject sequence, which
  texts are numerals and what number a numeral denotes: optional white space, an optional
  sign, an optional \<^verbatim>\<open>0x\<close> prefix when the base is 0 or 16, then one or more digits of
  the base and nothing else. The scanning code above is compared with them below.
\<close>

definition valid_base :: "int \<Rightarrow> bool" where
  "valid_base base \<longleftrightarrow> base = 0 \<or> (2 \<le> base \<and> base \<le> 36)"

definition valid_digit :: "nat \<Rightarrow> char \<Rightarrow> bool" where
  "valid_digit b c = (case digit_val c of None \<Rightarrow> False | Some d \<Rightarrow> d < b)"

definition add_digit :: "nat \<Rightarrow> nat \<Rightarrow> char \<Rightarrow> nat" where
  "add_digit b i c = i * b + (case digit_val c of None \<Rightarrow> 0 | Some d \<Rightarrow> d)"

text \<open>The text begins, after white space, with a minus sign.\<close>

definition spec_negative :: "string \<Rightarrow> bool" where
  "spec_negative s = (case dropWhile isspace s of [] \<Rightarrow> False | c # _ \<Rightarrow> c = CHR ''-'')"

text \<open>The text after the white space and the sign.\<close>

definition spec_unsigned_part :: "string \<Rightarrow> string" where
  "spec_unsigned_part s =
    (case dropWhile isspace s of
       [] \<Rightarrow> []
     | c # cs \<Rightarrow> if c = CHR ''-'' \<or> c = CHR ''+'' then cs else c # cs)"

text \<open>A hexadecimal prefix counts as one only in front of a hexadecimal digit.\<close>

definition spec_hex_prefix :: "int \<Rightarrow> string \<Rightarrow> bool" where
  "spec_hex_prefix base u =
    ((base = 0 \<or> base = 16) \<and>
     (case u of
        z # x # d # _ \<Rightarrow> z = CHR ''0'' \<and> (x = CHR ''x'' \<or> x = CHR ''X'') \<and> valid_digit 16 d
      | _ \<Rightarrow> False))"

text \<open>The base in force: with base 0, a \<^verbatim>\<open>0x\<close> prefix means 16, a leading \<^verbatim>\<open>0\<close> means 8,
  anything else 10.\<close>

definition spec_base :: "int \<Rightarrow> string \<Rightarrow> nat" where
  "spec_base base u =
    (if base \<noteq> 0 then nat base
     else if spec_hex_prefix base u then 16
     else if (case u of [] \<Rightarrow> False | c # _ \<Rightarrow> c = CHR ''0'') then 8
     else 10)"

definition spec_digits :: "int \<Rightarrow> string \<Rightarrow> string" where
  "spec_digits base u = (if spec_hex_prefix base u then drop 2 u else u)"

definition is_numeral :: "int \<Rightarrow> string \<Rightarrow> bool" where
  "is_numeral base s =
    (let u = spec_unsigned_part s; ds = spec_digits base u
     in ds \<noteq> [] \<and> list_all (valid_digit (spec_base base u)) ds)"

definition spec_magnitude :: "int \<Rightarrow> string \<Rightarrow> nat" where
  "spec_magnitude base s =
    (let u = spec_unsigned_part s
     in foldl (add_digit (spec_base base u)) 0 (spec_digits base u))"

definition spec_value :: "int \<Rightarrow> string \<Rightarrow> int" where
  "spec_value base s =
    (if spec_negative s then - int (spec_magnitude base s) else int (spec_magnitude base s))"

text \<open>Two of the kinds of malformed text that the specification names: no character of
  the text is a digit of the base in force, and the text ends with a character that is
  no digit of the base in force.\<close>

definition no_digits :: "int \<Rightarrow> string \<Rightarrow> bool" where
  "no_digits base s =
    list_all (\<lambda>c. \<not> valid_digit (spec_base base (spec_unsigned_part s)) c) s"

definition trailing_nondigit :: "int \<Rightarrow> string \<Rightarrow> bool" where
  "trailing_nondigit base s =
    (s \<noteq> [] \<and> \<not> valid_digit (spec_base base (spec_unsigned_part s)) (last s))"

text \<open>The destination types of the specification: the signed and the unsigned integer
  types, each with the range that its width gives it (8, 16, 32 and 64 bits on this
  platform). None of this is read from the tables of the header.\<close>

fun is_signed :: "ctype \<Rightarrow> bool" where
  "is_signed T_schar = True"
| "is_signed T_short = True"
| "is_signed T_int = True"
| "is_signed T_long = True"
| "is_signed T_llong = True"
| "is_signed _ = False"

fun is_unsigned :: "ctype \<Rightarrow> bool" where
  "is_unsigned T_uchar = True"
| "is_unsigned T_ushort = True"
| "is_unsigned T_uint = True"
| "is_unsigned T_ulong = True"
| "is_unsigned T_ullong = True"
| "is_unsigned _ = False"

definition spec_supported :: "ctype \<Rightarrow> bool" where
  "spec_supported ty \<longleftrightarrow> is_signed ty \<or> is_unsigned ty"

fun width :: "ctype \<Rightarrow> nat" where
  "width T_schar = 8"
| "width T_uchar = 8"
| "width T_short = 16"
| "width T_ushort = 16"
| "width T_int = 32"
| "width T_uint = 32"
| "width T_long = 64"
| "width T_ulong = 64"
| "width T_llong = 64"
| "width T_ullong = 64"
| "width T_char = 8"
| "width T_other = 0"

definition type_min :: "ctype \<Rightarrow> int" where
  "type_min ty = (if is_signed ty then - (2 ^ (width ty - 1)) else 0)"

definition type_max :: "ctype \<Rightarrow> int" where
  "type_max ty = (if is_signed ty then 2 ^ (width ty - 1) - 1 else 2 ^ width ty - 1)"

definition representable :: "ctype \<Rightarrow> int \<Rightarrow> bool" where
  "representable ty v \<longleftrightarrow> type_min ty \<le> v \<and> v \<le> type_max ty"

text \<open>The outcomes of a call with a supported base, in the priority order of the
  specification. The kinds are the three that the C code tells apart, each with an
  error number of its own.\<close>

datatype error_kind = Unsupported_type | Invalid_format | Out_of_range

definition spec_parse :: "string \<Rightarrow> int \<Rightarrow> ctype \<Rightarrow> error_kind + int" where
  "spec_parse text base ty =
    (if \<not> spec_supported ty then Inl Unsupported_type
     else if \<not> is_numeral base text then Inl Invalid_format
     else if (is_unsigned ty \<and> spec_negative text) \<or> \<not> representable ty (spec_value base text)
          then Inl Out_of_range
     else Inr (spec_value base text))"

fun errno_of_kind :: "error_kind \<Rightarrow> int" where
  "errno_of_kind Unsupported_type = ENOTSUP"
| "errno_of_kind Invalid_format = EINVAL"
| "errno_of_kind Out_of_range = ERANGE"

text \<open>What the macro has to return and leave in \<^verbatim>\<open>*res\<close> for an outcome of the
  specification.\<close>

definition spec_outcome :: "string \<Rightarrow> int \<Rightarrow> ctype \<Rightarrow> int \<Rightarrow> int \<times> int" where
  "spec_outcome text base ty res =
    (case spec_parse text base ty of
       Inl k \<Rightarrow> (- errno_of_kind k, res)
     | Inr v \<Rightarrow> (0, v))"

text \<open>The decimal text of an integer, as the \<^verbatim>\<open>%lld\<close> and \<^verbatim>\<open>%llu\<close> conversions of
  \<^verbatim>\<open>printf\<close> write it: no leading zeros, a minus sign in front of a negative number.\<close>

definition digit_char :: "nat \<Rightarrow> char" where
  "digit_char d = char_of (48 + d)"

fun decimal :: "nat \<Rightarrow> string" where
  "decimal n = (if n < 10 then [digit_char n] else decimal (n div 10) @ [digit_char (n mod 10)])"

definition format_decimal :: "int \<Rightarrow> string" where
  "format_decimal v = (if v < 0 then CHR ''-'' # decimal (nat (- v)) else decimal (nat v))"

section \<open>The scan against the grammar\<close>

lemma scan_digits_eq:
  "scan_digits b cs i =
     (foldl (add_digit b) i (takeWhile (valid_digit b) cs), dropWhile (valid_digit b) cs)"
  by (induction cs arbitrary: i) (auto simp: valid_digit_def add_digit_def split: option.splits)

lemma scan_sign_eq:
  "dropWhile isspace s \<noteq> [] \<Longrightarrow>
   scan_sign (dropWhile isspace s) = (spec_negative s, spec_unsigned_part s)"
  by (cases "dropWhile isspace s") (auto simp: spec_negative_def spec_unsigned_part_def)

lemma valid_digit_x [simp]:
  "b \<le> 16 \<Longrightarrow> \<not> valid_digit b (CHR ''x'')"
  "b \<le> 16 \<Longrightarrow> \<not> valid_digit b (CHR ''X'')"
  by (simp_all add: valid_digit_def digit_val_def)

lemma scan_prefix_numeral:
  assumes "list_all (valid_digit (spec_base base u)) (spec_digits base u)"
  shows "scan_prefix base u = (spec_base base u, spec_digits base u)"
  using assms
  apply (cases "(base, u)" rule: scan_prefix.cases)
  apply (auto simp: spec_base_def spec_digits_def spec_hex_prefix_def split: list.splits)
  done

lemma scan_prefix_valid:
  assumes "scan_prefix base u = (b, save)" "save \<noteq> []" "list_all (valid_digit b) save"
  shows "b = spec_base base u \<and> save = spec_digits base u"
  using assms
  apply (cases "(base, u)" rule: scan_prefix.cases)
  apply (auto simp: spec_base_def spec_digits_def spec_hex_prefix_def split: list.splits if_splits)
  done

lemma numeral_nonempty:
  assumes "is_numeral base s"
  shows "dropWhile isspace s \<noteq> []"
proof
  assume "dropWhile isspace s = []"
  then have "spec_unsigned_part s = []" by (simp add: spec_unsigned_part_def del: dropWhile_eq_Nil_conv)
  then have "spec_digits base (spec_unsigned_part s) = []" by (simp add: spec_digits_def)
  with assms show False by (simp add: is_numeral_def Let_def)
qed

lemma strto_scan_numeral:
  assumes "is_numeral base s"
  shows "strto_scan s base = Conv (spec_negative s) (spec_magnitude base s) (length s)"
proof -
  let ?u = "spec_unsigned_part s"
  have ne: "dropWhile isspace s \<noteq> []" using assms by (rule numeral_nonempty)
  have ds: "spec_digits base ?u \<noteq> []"
    and ok: "list_all (valid_digit (spec_base base ?u)) (spec_digits base ?u)"
    using assms by (simp_all add: is_numeral_def Let_def)
  have tw: "takeWhile (valid_digit (spec_base base ?u)) (spec_digits base ?u) = spec_digits base ?u"
    using ok by (simp add: list_all_iff)
  have dw: "dropWhile (valid_digit (spec_base base ?u)) (spec_digits base ?u) = []"
    using ok by (simp add: list_all_iff)
  show ?thesis
    using ne ds
    by (simp add: strto_scan_def scan_sign_eq scan_prefix_numeral [OF ok] scan_digits_eq tw dw
        spec_magnitude_def Let_def)
qed

lemma strto_scan_not_numeral:
  assumes "\<not> is_numeral base s"
  shows "case strto_scan s base of NoConv e \<Rightarrow> e = 0 \<or> e < length s | Conv n i e \<Rightarrow> e < length s"
proof (cases "dropWhile isspace s = []")
  case True
  then show ?thesis by (simp add: strto_scan_def)
next
  case False
  then have sne: "s \<noteq> []" by auto
  obtain b save where pre: "scan_prefix base (spec_unsigned_part s) = (b, save)"
    by (cases "scan_prefix base (spec_unsigned_part s)")
  let ?rest = "dropWhile (valid_digit b) save"
  show ?thesis
  proof (cases "?rest = save")
    case True
    then show ?thesis
      using False pre by (auto simp: strto_scan_def scan_sign_eq scan_digits_eq Let_def)
  next
    case neq: False
    have "?rest \<noteq> []"
    proof
      assume e: "?rest = []"
      then have "list_all (valid_digit b) save" 
        by (metis dropWhile_eq_Nil_conv list_all_iff)
      moreover have "save \<noteq> []" using neq e by auto
      ultimately have "b = spec_base base (spec_unsigned_part s) \<and> save = spec_digits base (spec_unsigned_part s)"
        using pre scan_prefix_valid by blast
      with \<open>list_all (valid_digit b) save\<close> \<open>save \<noteq> []\<close> have "is_numeral base s"
        by (simp add: is_numeral_def Let_def)
      with assms show False by simp
    qed
    then have "length s - length ?rest < length s" using sne by (cases ?rest) auto
    then show ?thesis
      using False pre neq by (auto simp: strto_scan_def scan_sign_eq scan_digits_eq Let_def)
  qed
qed



lemma sint64_of_int:
  assumes "- (2 ^ 63) \<le> v" "v < 2 ^ 63"
  shows "sint (word_of_int v :: 64 word) = v"
  using assms by (simp add: sint_sbintrunc' signed_take_bit_int_eq_self)

lemma uint64_of_int:
  assumes "0 \<le> v" "v < 2 ^ 64"
  shows "uint (word_of_int v :: 64 word) = v"
  using assms by (simp add: uint_word_of_int take_bit_eq_mod)

lemma signed_check:
  assumes "- (2 ^ 63) \<le> v" "v < 2 ^ 63" "- (2 ^ 63) \<le> tmin" "tmin \<le> 0" "0 \<le> tmax" "tmax < 2 ^ 63"
  shows "((word_of_int v :: 64 word) <s word_of_int tmin \<or>
          (0 <s (word_of_int v :: 64 word) \<and> (word_of_int tmax :: 64 word) < word_of_int v))
         \<longleftrightarrow> (v < tmin \<or> tmax < v)"
proof -
  have a: "sint (word_of_int v :: 64 word) = v" using assms by (simp add: sint64_of_int)
  have b: "sint (word_of_int tmin :: 64 word) = tmin" using assms by (simp add: sint64_of_int)
  have c: "uint (word_of_int tmax :: 64 word) = tmax" using assms by (simp add: uint64_of_int)
  have d: "0 < v \<Longrightarrow> uint (word_of_int v :: 64 word) = v" using assms by (simp add: uint64_of_int)
  have z: "sint (0 :: 64 word) = 0" by simp
  show ?thesis
    unfolding word_sless_alt word_less_def a b c z using d assms by auto
qed

lemma unsigned_check:
  assumes "0 \<le> v" "v < 2 ^ 64" "0 \<le> tmax" "tmax < 2 ^ 64"
  shows "(word_of_int tmax :: 64 word) < word_of_int v \<longleftrightarrow> tmax < v"
  unfolding word_less_def using assms by (simp add: uint64_of_int)

lemma cast_s8: "- 128 \<le> v \<Longrightarrow> v \<le> 127 \<Longrightarrow> sint (ucast (word_of_int v :: 64 word) :: 8 word) = v"
  by (simp add: sint_sbintrunc' signed_take_bit_take_bit signed_take_bit_int_eq_self unsigned_of_int take_bit_of_int)
lemma cast_s16: "- 32768 \<le> v \<Longrightarrow> v \<le> 32767 \<Longrightarrow> sint (ucast (word_of_int v :: 64 word) :: 16 word) = v"
  by (simp add: sint_sbintrunc' signed_take_bit_take_bit signed_take_bit_int_eq_self unsigned_of_int take_bit_of_int)
lemma cast_s32: "- 2147483648 \<le> v \<Longrightarrow> v \<le> 2147483647 \<Longrightarrow> sint (ucast (word_of_int v :: 64 word) :: 32 word) = v"
  by (simp add: sint_sbintrunc' signed_take_bit_take_bit signed_take_bit_int_eq_self unsigned_of_int take_bit_of_int)
lemma cast_u8: "0 \<le> v \<Longrightarrow> v \<le> 255 \<Longrightarrow> uint (ucast (word_of_int v :: 64 word) :: 8 word) = v"
  by (simp add: uint_word_of_int take_bit_eq_mod unsigned_of_int take_bit_of_int)
lemma cast_u16: "0 \<le> v \<Longrightarrow> v \<le> 65535 \<Longrightarrow> uint (ucast (word_of_int v :: 64 word) :: 16 word) = v"
  by (simp add: uint_word_of_int take_bit_eq_mod unsigned_of_int take_bit_of_int)
lemma cast_u32: "0 \<le> v \<Longrightarrow> v \<le> 4294967295 \<Longrightarrow> uint (ucast (word_of_int v :: 64 word) :: 32 word) = v"
  by (simp add: uint_word_of_int take_bit_eq_mod unsigned_of_int take_bit_of_int)

lemmas consts_defs = EINVAL_def ERANGE_def ENOTSUP_def CHAR_MIN_def CHAR_MAX_def SCHAR_MIN_def SCHAR_MAX_def
  SHRT_MIN_def SHRT_MAX_def INT_MIN_def INT_MAX_def LONG_MIN_def LONG_MAX_def LLONG_MIN_def LLONG_MAX_def
  UCHAR_MAX_def USHRT_MAX_def UINT_MAX_def ULONG_MAX_def ULLONG_MAX_def


lemma not_valid_digit_minus [simp]: "\<not> valid_digit b (CHR ''-'')"
  by (simp add: valid_digit_def digit_val_def)

lemma minus_in_numeral:
  assumes "is_numeral base s"
  shows "CHR ''-'' \<in> set s \<longleftrightarrow> spec_negative s"
proof -
  let ?u = "spec_unsigned_part s"
  have ne: "dropWhile isspace s \<noteq> []" using assms by (rule numeral_nonempty)
  have ok: "list_all (valid_digit (spec_base base ?u)) (spec_digits base ?u)"
    using assms by (simp add: is_numeral_def Let_def)
  have nd: "CHR ''-'' \<notin> set (spec_digits base ?u)"
    using ok by (auto simp: list_all_iff)
  have nu: "CHR ''-'' \<notin> set ?u"
  proof (cases "spec_hex_prefix base ?u")
    case True
    then obtain z x r where u: "?u = z # x # r" "z = CHR ''0''" "x = CHR ''x'' \<or> x = CHR ''X''"
      by (auto simp: spec_hex_prefix_def split: list.splits)
    with nd True show ?thesis by (auto simp: spec_digits_def)
  next
    case False
    with nd show ?thesis by (simp add: spec_digits_def)
  qed
  have sp: "CHR ''-'' \<notin> set (takeWhile isspace s)"
    by (auto dest!: set_takeWhileD simp: isspace_def)
  have "set s = set (takeWhile isspace s) \<union> set (dropWhile isspace s)"
    by (metis set_append takeWhile_dropWhile_id)
  with sp have "CHR ''-'' \<in> set s \<longleftrightarrow> CHR ''-'' \<in> set (dropWhile isspace s)" by simp
  also have "\<dots> \<longleftrightarrow> spec_negative s"
    using ne nu by (cases "dropWhile isspace s") (auto simp: spec_negative_def spec_unsigned_part_def split: if_splits)
  finally show ?thesis .
qed

lemma numeral_length: "is_numeral base s \<Longrightarrow> 0 < length s"
  using numeral_nonempty by fastforce

lemma func_unsupported_base:
  assumes "enum_val t \<noteq> 0" "\<not> valid_base base"
  shows "strtoi_generic_func s mn mx t base num = None"
  using assms
  by (auto simp: strtoi_generic_func_def strtoull_def strtoll_def valid_base_def)

lemma func_not_numeral:
  assumes "enum_val t \<noteq> 0" "valid_base base" "\<not> is_numeral base s"
  shows "strtoi_generic_func s mn mx t base num = Some (- EINVAL, num)"
  using assms strto_scan_not_numeral [OF assms(3)]
  by (auto simp: strtoi_generic_func_def strtoull_def strtoll_def valid_base_def Let_def
      split: scan.splits)

lemma func_unsigned_numeral:
  assumes t: "enum_val t > enum_val STRTOI_GENERIC_TYPENAME_UNSIGNED"
    and b: "valid_base base" and n: "is_numeral base s"
    and mx: "0 \<le> tmax" "tmax < 2 ^ 64"
  shows "strtoi_generic_func s mn (word_of_int tmax) t base num =
           Some (if spec_negative s \<or> tmax < spec_value base s then (- ERANGE, num)
                 else (0, word_of_int (spec_value base s)))"
proof -
  let ?m = "spec_magnitude base s"
  have t0: "enum_val t \<noteq> 0" using t by (simp add: SCHAR_MAX_def)
  have nb: "\<not> (base < 0 \<or> base = 1 \<or> base > 36)" using b by (auto simp: valid_base_def)
  show ?thesis
  proof (cases "int ?m > ULLONG_MAX")
    case True
    then have "\<not> spec_negative s \<Longrightarrow> tmax < spec_value base s"
      using mx by (simp add: spec_value_def ULLONG_MAX_def)
    with True show ?thesis
      using t t0 nb numeral_length [OF n]
      by (auto simp: strtoi_generic_func_def strtoull_def strto_scan_numeral [OF n] ERANGE_def)
  next
    case False
    then have m: "int ?m < 2 ^ 64" by (simp add: ULLONG_MAX_def)
    have cmp: "\<not> spec_negative s \<Longrightarrow>
        ((word_of_int tmax :: 64 word) < word_of_nat ?m) = (tmax < spec_value base s)"
      using unsigned_check [of "int ?m" tmax] m mx by (simp add: spec_value_def)
    show ?thesis
      using t t0 nb numeral_length [OF n] False cmp
      by (auto simp: strtoi_generic_func_def strtoull_def strto_scan_numeral [OF n] ERANGE_def
          minus_in_numeral [OF n] spec_value_def)
  qed
qed

lemma func_signed_numeral:
  assumes t: "enum_val t \<noteq> 0" "\<not> enum_val t > enum_val STRTOI_GENERIC_TYPENAME_UNSIGNED"
    and b: "valid_base base" and n: "is_numeral base s"
    and mn: "- (2 ^ 63) \<le> tmin" "tmin \<le> 0" and mx: "0 \<le> tmax" "tmax < 2 ^ 63"
  shows "strtoi_generic_func s (word_of_int tmin) (word_of_int tmax) t base num =
           Some (if spec_value base s < tmin \<or> tmax < spec_value base s then (- ERANGE, num)
                 else (0, word_of_int (spec_value base s)))"
proof -
  let ?m = "spec_magnitude base s"
  let ?v = "spec_value base s"
  have nb: "\<not> (base < 0 \<or> base = 1 \<or> base > 36)" using b by (auto simp: valid_base_def)
  have r: "strtoll s base =
      (if int ?m > (if spec_negative s then - LLONG_MIN else LLONG_MAX)
       then \<lparr>ret_val = word_of_int (if spec_negative s then LLONG_MIN else LLONG_MAX),
             endptr = Some (length s), errno = ERANGE\<rparr>
       else \<lparr>ret_val = word_of_int ?v, endptr = Some (length s), errno = 0\<rparr>)"
    using nb by (simp add: strtoll_def strto_scan_numeral [OF n] spec_value_def)
  show ?thesis
  proof (cases "int ?m > (if spec_negative s then - LLONG_MIN else LLONG_MAX)")
    case True
    then have "?v < tmin \<or> tmax < ?v"
      using mn mx by (auto simp: spec_value_def LLONG_MIN_def LLONG_MAX_def split: if_splits)
    with True show ?thesis
      using t numeral_length [OF n]
      by (simp add: strtoi_generic_func_def r ERANGE_def)
  next
    case False
    then have v: "- (2 ^ 63) \<le> ?v" "?v < 2 ^ 63"
      by (auto simp: spec_value_def LLONG_MIN_def LLONG_MAX_def split: if_splits)
    show ?thesis
      using t numeral_length [OF n] False signed_check [OF v mn mx]
      by (simp add: strtoi_generic_func_def r ERANGE_def)
  qed
qed


lemma unsigned_nonneg: "\<not> spec_negative s \<Longrightarrow> 0 \<le> spec_value base s"
  by (simp add: spec_value_def)

lemma cast_to_in_range:
  assumes "STRTOI_GENERIC_TYPENAME ty \<noteq> STRTOI_GENERIC_TYPENAME_OTHER"
    and "inner_STRTOI_GENERIC_INTMIN ty \<le> v" "v \<le> inner_STRTOI_GENERIC_INTMAX ty"
  shows "cast_to ty (word_of_int v) = v"
  using assms
  by (cases ty)
    (simp_all add: consts_defs cast_s8 cast_s16 cast_s32 cast_u8 cast_u16 cast_u32
      sint64_of_int uint64_of_int)

lemma enum_val_supported:
  "enum_val (STRTOI_GENERIC_TYPENAME ty) = 0 \<longleftrightarrow>
   STRTOI_GENERIC_TYPENAME ty = STRTOI_GENERIC_TYPENAME_OTHER"
  by (cases ty) (simp_all add: SCHAR_MAX_def)

lemma func_numeral:
  assumes sup: "STRTOI_GENERIC_TYPENAME ty \<noteq> STRTOI_GENERIC_TYPENAME_OTHER"
    and vb: "valid_base base" and num: "is_numeral base s"
  shows "strtoi_generic_func s (STRTOI_GENERIC_INTMIN ty) (STRTOI_GENERIC_INTMAX ty)
           (STRTOI_GENERIC_TYPENAME ty) base n =
         Some (if (is_unsigned ty \<and> spec_negative s)
                  \<or> spec_value base s < inner_STRTOI_GENERIC_INTMIN ty
                  \<or> inner_STRTOI_GENERIC_INTMAX ty < spec_value base s
               then (- ERANGE, n) else (0, word_of_int (spec_value base s)))"
proof (cases "is_unsigned ty")
  case True
  then have mx: "0 \<le> inner_STRTOI_GENERIC_INTMAX ty" "inner_STRTOI_GENERIC_INTMAX ty < 2 ^ 64"
    and mn: "inner_STRTOI_GENERIC_INTMIN ty = 0"
    by (cases ty; simp add: consts_defs)+
  have tu: "enum_val (STRTOI_GENERIC_TYPENAME ty) > enum_val STRTOI_GENERIC_TYPENAME_UNSIGNED"
    using True by (cases ty) (simp_all add: SCHAR_MAX_def)
  have "\<not> spec_negative s \<Longrightarrow> \<not> spec_value base s < 0" by (simp add: spec_value_def)
  then show ?thesis
    unfolding STRTOI_GENERIC_INTMAX_def
    using True by (auto simp: func_unsigned_numeral [OF tu vb num mx] mn)
next
  case False
  then have mx: "0 \<le> inner_STRTOI_GENERIC_INTMAX ty" "inner_STRTOI_GENERIC_INTMAX ty < 2 ^ 63"
    and mn: "- (2 ^ 63) \<le> inner_STRTOI_GENERIC_INTMIN ty" "inner_STRTOI_GENERIC_INTMIN ty \<le> 0"
    using sup by (cases ty; simp add: consts_defs)+
  have ts: "enum_val (STRTOI_GENERIC_TYPENAME ty) \<noteq> 0"
    "\<not> enum_val (STRTOI_GENERIC_TYPENAME ty) > enum_val STRTOI_GENERIC_TYPENAME_UNSIGNED"
    using False sup by (cases ty; simp add: SCHAR_MAX_def)+
  show ?thesis
    unfolding STRTOI_GENERIC_INTMAX_def STRTOI_GENERIC_INTMIN_def
    using False by (simp add: func_signed_numeral [OF ts vb num mn mx])
qed

text \<open>The dispatch and the limit tables of the header against the types of the
  specification.\<close>

lemma supported_dispatch:
  "spec_supported ty \<longleftrightarrow> STRTOI_GENERIC_TYPENAME ty \<noteq> STRTOI_GENERIC_TYPENAME_OTHER"
  by (cases ty) (simp_all add: spec_supported_def)

lemma table_limits:
  assumes "spec_supported ty"
  shows "inner_STRTOI_GENERIC_INTMIN ty = type_min ty"
    and "inner_STRTOI_GENERIC_INTMAX ty = type_max ty"
  using assms
  by (cases ty; simp add: spec_supported_def type_min_def type_max_def consts_defs)+

lemma unsupported_base_none:
  assumes "spec_supported ty" "\<not> valid_base base"
  shows "strtoi_base_generic s base ty res n = None"
proof -
  have "enum_val (STRTOI_GENERIC_TYPENAME ty) \<noteq> 0"
    using assms(1) by (simp add: supported_dispatch enum_val_supported)
  then show ?thesis
    by (simp add: strtoi_base_generic_def func_unsupported_base [OF _ assms(2)])
qed

lemma strtoi_base_generic_spec:
  assumes "valid_base base \<or> \<not> spec_supported ty"
  shows "strtoi_base_generic s base ty res n = Some (spec_outcome s base ty res)"
proof (cases "spec_supported ty")
  case False
  then show ?thesis
    by (simp add: strtoi_base_generic_def strtoi_generic_func_def spec_outcome_def
        spec_parse_def supported_dispatch ENOTSUP_def)
next
  case sup: True
  then have d: "STRTOI_GENERIC_TYPENAME ty \<noteq> STRTOI_GENERIC_TYPENAME_OTHER"
    by (simp add: supported_dispatch)
  then have t0: "enum_val (STRTOI_GENERIC_TYPENAME ty) \<noteq> 0"
    by (simp add: enum_val_supported)
  from assms sup have vb: "valid_base base" by simp
  show ?thesis
  proof (cases "is_numeral base s")
    case False
    with sup show ?thesis
      by (simp add: strtoi_base_generic_def func_not_numeral [OF t0 vb False]
          spec_outcome_def spec_parse_def EINVAL_def)
  next
    case num: True
    show ?thesis
      using sup num
      by (simp add: strtoi_base_generic_def func_numeral [OF d vb num] table_limits [OF sup]
          spec_outcome_def spec_parse_def representable_def
          cast_to_in_range [OF d] ERANGE_def)
  qed
qed

section \<open>Malformed texts\<close>

lemma unsigned_part_suffix: "\<exists>p. s = p @ spec_unsigned_part s"
proof (cases "dropWhile isspace s")
  case Nil
  then show ?thesis by (simp add: spec_unsigned_part_def del: dropWhile_eq_Nil_conv)
next
  case (Cons c cs)
  have s: "s = takeWhile isspace s @ c # cs"
    using Cons by (metis takeWhile_dropWhile_id)
  show ?thesis
  proof (cases "c = CHR ''-'' \<or> c = CHR ''+''")
    case True
    then have "spec_unsigned_part s = cs" using Cons by (simp add: spec_unsigned_part_def)
    moreover have "s = (takeWhile isspace s @ [c]) @ cs" using s by simp
    ultimately show ?thesis by metis
  next
    case False
    then have "spec_unsigned_part s = c # cs" using Cons by (auto simp: spec_unsigned_part_def)
    with s show ?thesis by metis
  qed
qed

lemma digits_suffix: "\<exists>p. s = p @ spec_digits base (spec_unsigned_part s)"
proof -
  let ?u = "spec_unsigned_part s"
  obtain p where p: "s = p @ ?u" using unsigned_part_suffix by blast
  have "?u = (if spec_hex_prefix base ?u then take 2 ?u else []) @ spec_digits base ?u"
    by (simp add: spec_digits_def)
  then obtain q where q: "?u = q @ spec_digits base ?u" ..
  from p q have "s = (p @ q) @ spec_digits base ?u" by (metis append_assoc)
  then show ?thesis ..
qed

lemma whitespace_not_numeral: "list_all isspace s \<Longrightarrow> \<not> is_numeral base s"
  using numeral_nonempty [of base s] by (auto simp: list_all_iff)

lemma no_digits_not_numeral: "no_digits base s \<Longrightarrow> \<not> is_numeral base s"
proof
  assume nd: "no_digits base s" and n: "is_numeral base s"
  let ?ds = "spec_digits base (spec_unsigned_part s)"
  obtain p where p: "s = p @ ?ds" using digits_suffix by blast
  from n have "?ds \<noteq> []" and ok: "list_all (valid_digit (spec_base base (spec_unsigned_part s))) ?ds"
    by (simp_all add: is_numeral_def Let_def)
  then obtain c where c: "c \<in> set ?ds" by (cases ?ds) auto
  then have "c \<in> set s" using p by (metis Un_iff set_append)
  with nd have "\<not> valid_digit (spec_base base (spec_unsigned_part s)) c"
    by (simp add: no_digits_def list_all_iff)
  with ok c show False by (simp add: list_all_iff)
qed

lemma trailing_not_numeral: "trailing_nondigit base s \<Longrightarrow> \<not> is_numeral base s"
proof
  assume t: "trailing_nondigit base s" and n: "is_numeral base s"
  let ?ds = "spec_digits base (spec_unsigned_part s)"
  obtain p where p: "s = p @ ?ds" using digits_suffix by blast
  from n have ne: "?ds \<noteq> []" and ok: "list_all (valid_digit (spec_base base (spec_unsigned_part s))) ?ds"
    by (simp_all add: is_numeral_def Let_def)
  have "last s = last ?ds" using p ne by (metis last_appendR)
  then have "last s \<in> set ?ds" using ne by simp
  with ok have "valid_digit (spec_base base (spec_unsigned_part s)) (last s)"
    by (simp add: list_all_iff)
  with t show False by (simp add: trailing_nondigit_def)
qed

lemma not_numeral_EINVAL:
  assumes "spec_supported ty" "valid_base base" "\<not> is_numeral base s"
  shows "strtoi_base_generic s base ty res n = Some (- EINVAL, res)"
  using assms by (simp add: strtoi_base_generic_spec spec_outcome_def spec_parse_def)

lemma success_is_numeral:
  assumes "strtoi_base_generic s base ty res n = Some (0, v)"
  shows "is_numeral base s"
proof (cases "valid_base base \<or> \<not> spec_supported ty")
  case True
  from assms show ?thesis
    unfolding strtoi_base_generic_spec [OF True]
    by (auto simp: spec_outcome_def spec_parse_def consts_defs split: if_splits)
next
  case False
  then have "strtoi_base_generic s base ty res n = None"
    by (simp add: unsupported_base_none)
  with assms show ?thesis by simp
qed

section \<open>Decimal texts\<close>

declare decimal.simps [simp del]

lemma digit_val_digit_char: "d < 10 \<Longrightarrow> digit_val (digit_char d) = Some d"
  by (simp add: digit_val_def digit_char_def)

lemma isspace_no_digit: "isspace c \<Longrightarrow> digit_val c = None"
  by (auto simp: isspace_def digit_val_def)

lemma digit_char_zero: "digit_char 0 = CHR ''0''"
  by (simp add: digit_char_def char_of_eq_iff)

lemma digit_char_facts:
  assumes "d < 10"
  shows "\<not> isspace (digit_char d)" "digit_char d \<noteq> CHR ''-''" "digit_char d \<noteq> CHR ''+''"
    "digit_char d = CHR ''0'' \<longleftrightarrow> d = 0" "valid_digit 10 (digit_char d)"
proof -
  note dv = digit_val_digit_char [OF assms]
  show "\<not> isspace (digit_char d)" using dv isspace_no_digit by fastforce
  show "digit_char d \<noteq> CHR ''-''" using dv by (auto simp: digit_val_def)
  show "digit_char d \<noteq> CHR ''+''" using dv by (auto simp: digit_val_def)
  show "digit_char d = CHR ''0'' \<longleftrightarrow> d = 0"
    using dv by (auto simp: digit_val_def digit_char_zero)
  show "valid_digit 10 (digit_char d)" using dv assms by (simp add: valid_digit_def)
qed

lemma decimal_valid: "list_all (valid_digit 10) (decimal n)"
proof (induction n rule: decimal.induct)
  case (1 n)
  show ?case
  proof (cases "n < 10")
    case True
    then show ?thesis by (simp add: decimal.simps [of n] digit_char_facts)
  next
    case False
    then show ?thesis using 1 by (simp add: decimal.simps [of n] digit_char_facts)
  qed
qed

lemma decimal_value: "foldl (add_digit 10) 0 (decimal n) = n"
proof (induction n rule: decimal.induct)
  case (1 n)
  show ?case
  proof (cases "n < 10")
    case True
    then show ?thesis by (simp add: decimal.simps [of n] add_digit_def digit_val_digit_char)
  next
    case False
    then show ?thesis using 1
      by (simp add: decimal.simps [of n] add_digit_def digit_val_digit_char)
  qed
qed

lemma decimal_head:
  "\<exists>k r. decimal n = digit_char k # r \<and> k < 10 \<and> (k = 0 \<longrightarrow> n = 0 \<and> r = [])"
proof (induction n rule: decimal.induct)
  case (1 n)
  show ?case
  proof (cases "n < 10")
    case True
    then have "decimal n = digit_char n # [] \<and> n < 10 \<and> (n = 0 \<longrightarrow> n = 0 \<and> [] = ([] :: string))"
      by (simp add: decimal.simps [of n])
    then show ?thesis by blast
  next
    case False
    then obtain k r where kr: "decimal (n div 10) = digit_char k # r" "k < 10"
      "k = 0 \<longrightarrow> n div 10 = 0 \<and> r = []"
      using 1 by blast
    from False have "n div 10 \<noteq> 0" by simp
    with kr have "k \<noteq> 0" by blast
    with kr False have "decimal n = digit_char k # (r @ [digit_char (n mod 10)]) \<and> k < 10
        \<and> (k = 0 \<longrightarrow> n = 0 \<and> r @ [digit_char (n mod 10)] = [])"
      by (simp add: decimal.simps [of n])
    then show ?thesis by blast
  qed
qed


lemma decimal_parts:
  "spec_unsigned_part (decimal n) = decimal n"
  "\<not> spec_negative (decimal n)"
  "spec_digits 0 (decimal n) = decimal n"
  "list_all (valid_digit (spec_base 0 (decimal n))) (decimal n)"
  "foldl (add_digit (spec_base 0 (decimal n))) 0 (decimal n) = n"
proof -
  obtain k r where kr: "decimal n = digit_char k # r" "k < 10" "k = 0 \<longrightarrow> n = 0 \<and> r = []"
    using decimal_head by blast
  note f = digit_char_facts [OF kr(2)]
  show u: "spec_unsigned_part (decimal n) = decimal n"
    using kr f by (simp add: spec_unsigned_part_def)
  show "\<not> spec_negative (decimal n)"
    using kr f by (simp add: spec_negative_def)
  have nh: "\<not> spec_hex_prefix 0 (decimal n)"
    using kr f by (auto simp: spec_hex_prefix_def split: list.splits)
  then show "spec_digits 0 (decimal n) = decimal n" by (simp add: spec_digits_def)
  show "list_all (valid_digit (spec_base 0 (decimal n))) (decimal n)"
  proof (cases "k = 0")
    case True
    with kr show ?thesis
      by (simp add: spec_base_def nh digit_char_zero valid_digit_def digit_val_def)
  next
    case False
    with kr f nh have "spec_base 0 (decimal n) = 10" by (simp add: spec_base_def)
    then show ?thesis by (simp add: decimal_valid)
  qed
  show "foldl (add_digit (spec_base 0 (decimal n))) 0 (decimal n) = n"
  proof (cases "k = 0")
    case True
    with kr show ?thesis
      by (simp add: spec_base_def nh digit_char_zero add_digit_def digit_val_def)
  next
    case False
    with kr f nh have "spec_base 0 (decimal n) = 10" by (simp add: spec_base_def)
    then show ?thesis by (simp add: decimal_value)
  qed
qed

lemma minus_decimal_parts:
  "spec_unsigned_part (CHR ''-'' # decimal n) = decimal n"
  "spec_negative (CHR ''-'' # decimal n)"
  by (simp_all add: spec_unsigned_part_def spec_negative_def isspace_def)

lemma format_decimal_numeral:
  "is_numeral 0 (format_decimal v)"
  "spec_value 0 (format_decimal v) = v"
  "spec_negative (format_decimal v) \<longleftrightarrow> v < 0"
proof -
  show "is_numeral 0 (format_decimal v)"
    using decimal_head [of "nat v"] decimal_head [of "nat (- v)"]
    by (auto simp: is_numeral_def format_decimal_def decimal_parts minus_decimal_parts)
  show "spec_value 0 (format_decimal v) = v"
    by (simp add: spec_value_def spec_magnitude_def format_decimal_def decimal_parts
        minus_decimal_parts)
  show "spec_negative (format_decimal v) \<longleftrightarrow> v < 0"
    by (simp add: format_decimal_def decimal_parts minus_decimal_parts)
qed

lemma unsigned_min: "is_unsigned ty \<Longrightarrow> type_min ty = 0"
  by (cases ty) (simp_all add: type_min_def)

section \<open>Signed and unsigned destinations\<close>

lemma unsigned_supported: "is_unsigned ty \<Longrightarrow> spec_supported ty"
  by (simp add: spec_supported_def)

lemma signed_supported: "is_signed ty \<Longrightarrow> spec_supported ty"
  by (simp add: spec_supported_def)

lemma signed_facts:
  assumes "is_signed ty"
  shows "enum_val (STRTOI_GENERIC_TYPENAME ty) \<noteq> 0"
    "\<not> enum_val (STRTOI_GENERIC_TYPENAME ty) > enum_val STRTOI_GENERIC_TYPENAME_UNSIGNED"
    "STRTOI_GENERIC_TYPENAME ty \<noteq> STRTOI_GENERIC_TYPENAME_OTHER"
    "- (2 ^ 63) \<le> inner_STRTOI_GENERIC_INTMIN ty" "inner_STRTOI_GENERIC_INTMIN ty \<le> 0"
    "0 \<le> inner_STRTOI_GENERIC_INTMAX ty" "inner_STRTOI_GENERIC_INTMAX ty < 2 ^ 63"
  using assms by (cases ty; simp add: consts_defs)+

lemma spec_negative_leading:
  "list_all isspace ws \<Longrightarrow> spec_negative (ws @ CHR ''-'' # rest)"
  by (simp add: spec_negative_def dropWhile_append3 isspace_def list_all_iff)

lemma negative_unsigned_outcome:
  assumes "is_unsigned ty" "valid_base base" "spec_negative s"
  shows "strtoi_base_generic s base ty res n =
           Some (if is_numeral base s then - ERANGE else - EINVAL, res)"
  using assms unsigned_supported [of ty]
  by (simp add: strtoi_base_generic_spec spec_outcome_def spec_parse_def)

lemma signed_cast:
  assumes s: "is_signed ty"
    and a: "\<not> acc <s STRTOI_GENERIC_INTMIN ty"
    and b: "\<not> (0 <s acc \<and> STRTOI_GENERIC_INTMAX ty < acc)"
  shows "cast_to ty acc = sint acc"
proof -
  let ?v = "sint acc"
  have acc: "acc = word_of_int ?v" by simp
  have v: "- (2 ^ 63) \<le> ?v" "?v < 2 ^ 63"
    using sint_ge [of acc] sint_lt [of acc] by simp_all
  note f = signed_facts [OF s]
  have "(acc <s STRTOI_GENERIC_INTMIN ty \<or> (0 <s acc \<and> STRTOI_GENERIC_INTMAX ty < acc))
      \<longleftrightarrow> (?v < inner_STRTOI_GENERIC_INTMIN ty \<or> inner_STRTOI_GENERIC_INTMAX ty < ?v)"
    using signed_check [OF v f(4) f(5) f(6) f(7)]
    by (simp add: STRTOI_GENERIC_INTMIN_def STRTOI_GENERIC_INTMAX_def)
  with a b have "\<not> (?v < inner_STRTOI_GENERIC_INTMIN ty \<or> inner_STRTOI_GENERIC_INTMAX ty < ?v)"
    by blast
  then have "cast_to ty (word_of_int ?v) = ?v"
    using cast_to_in_range [OF f(3), of ?v] by simp
  then show ?thesis by simp
qed

text \<open>The library stores nothing in \<^verbatim>\<open>*endptr\<close> exactly for an unsupported base, and
  it has then set \<^verbatim>\<open>errno\<close> to \<^verbatim>\<open>EINVAL\<close>: the \<^verbatim>\<open>errno\<close> test of \<^verbatim>\<open>strtoi_generic_func\<close>
  would hold there, but the reads of \<^verbatim>\<open>endptr\<close> come first.\<close>

lemma endptr_unset_strtoll:
  "endptr (strtoll nptr base) = None \<longleftrightarrow> \<not> valid_base base"
  "endptr (strtoll nptr base) = None \<Longrightarrow> errno (strtoll nptr base) = EINVAL"
  by (auto simp: strtoll_def valid_base_def split: scan.splits)

lemma endptr_unset_strtoull:
  "endptr (strtoull nptr base) = None \<longleftrightarrow> \<not> valid_base base"
  "endptr (strtoull nptr base) = None \<Longrightarrow> errno (strtoull nptr base) = EINVAL"
  by (auto simp: strtoull_def valid_base_def split: scan.splits)




text \<open>Every return other than 0 is negative and leaves \<^verbatim>\<open>*num\<close> alone.\<close>

lemma func_error_keeps_num:
  assumes "strtoi_generic_func str mn mx t base num = Some (r, num')" "r \<noteq> 0"
  shows "num' = num \<and> r < 0"
proof (cases "enum_val t = 0")
  case True
  with assms show ?thesis by (auto simp: strtoi_generic_func_def ENOTSUP_def)
next
  case False
  define q where "q = (if enum_val t > enum_val STRTOI_GENERIC_TYPENAME_UNSIGNED
                then strtoull str base else strtoll str base)"
  have eq: "strtoi_generic_func str mn mx t base num =
      (case endptr q of
         None \<Rightarrow> None
       | Some e \<Rightarrow>
           if e = 0 \<or> e < length str \<or> (errno q \<noteq> 0 \<and> errno q \<noteq> ERANGE)
           then Some (- EINVAL, num)
           else if errno q = ERANGE then Some (- ERANGE, num)
           else if (if enum_val t > enum_val STRTOI_GENERIC_TYPENAME_UNSIGNED
                    then CHR ''-'' \<in> set str \<or> mx < ret_val q
                    else ret_val q <s mn \<or> (0 <s ret_val q \<and> mx < ret_val q))
           then Some (- ERANGE, num)
           else Some (0, ret_val q))"
    unfolding strtoi_generic_func_def Let_def q_def using False by (simp only: if_False)
  show ?thesis
  proof (cases "endptr q")
    case None
    with assms eq show ?thesis by simp
  next
    case (Some e)
    with assms eq show ?thesis
      by (auto simp: EINVAL_def ERANGE_def split: if_splits)
  qed
qed

section \<open>Claims about the conversion\<close>

lemmas eval_defs = strtoi_generic_def strtoi_base_generic_def strtoi_generic_func_def strtoull_def
  strtoll_def strto_scan_def isspace_def digit_val_def STRTOI_GENERIC_INTMAX_def
  STRTOI_GENERIC_INTMIN_def consts_defs word_sless_alt

lemmas spec_eval_defs = is_numeral_def spec_value_def spec_magnitude_def spec_negative_def
  spec_unsigned_part_def isspace_def spec_digits_def spec_hex_prefix_def spec_base_def
  valid_digit_def add_digit_def digit_val_def valid_base_def

text \<open>
  Claim C1, as amended. For every unsigned destination type, every supported base and
  every text that begins, after optional white space, with a minus sign, the call never
  succeeds and leaves \<^verbatim>\<open>*res\<close> alone: it returns \<^verbatim>\<open>-ERANGE\<close> when the whole text is a
  numeral (the minus sign is followed by one or more digits of the base and nothing
  else), and \<^verbatim>\<open>-EINVAL\<close> when it is not. As stated, with out-of-range for every such
  text, the claim fails: a lone minus sign is an invalid format.
\<close>

theorem negative_literal_unsigned:
  assumes "is_unsigned ty" "valid_base base" "list_all isspace ws"
  shows "strtoi_base_generic (ws @ CHR ''-'' # rest) base ty res num0 =
           Some (if is_numeral base (ws @ CHR ''-'' # rest) then - ERANGE else - EINVAL, res)
       \<and> (\<forall>v. strtoi_base_generic (ws @ CHR ''-'' # rest) base ty res num0 \<noteq> Some (0, v))"
  using negative_unsigned_outcome [OF assms(1) assms(2) spec_negative_leading [OF assms(3)]]
  by (simp add: consts_defs)

theorem negative_literal_unsigned_witness:
  "is_unsigned T_uint \<and> valid_base 10 \<and> list_all isspace '' ''
   \<and> is_numeral 10 '' -5''
   \<and> strtoi_base_generic '' -5'' 10 T_uint 7 0 = Some (- ERANGE, 7)
   \<and> strtoi_base_generic ''-5x'' 10 T_uint 7 0 = Some (- EINVAL, 7)"
proof -
  have a: "list_all isspace '' ''" by (simp add: isspace_def)
  have b: "is_numeral 10 '' -5''" "\<not> is_numeral 10 ''-5x''" "valid_base 10"
    by (simp_all add: spec_eval_defs)
  show ?thesis
    using a b negative_literal_unsigned [of T_uint 10 "'' ''" "''5''" 7 0]
      negative_literal_unsigned [of T_uint 10 "[]" "''5x''" 7 0]
    by simp
qed

theorem negative_literal_unsigned_counterexample:
  "strtoi_base_generic ''-'' 10 T_uint 7 0 = Some (- EINVAL, 7)
   \<and> strtoi_base_generic ''-'' 10 T_uint 7 0 \<noteq> Some (- ERANGE, 7)
   \<and> strtoi_base_generic ''-12abc'' 10 T_uint 7 0 = Some (- EINVAL, 7)"
  by (simp add: eval_defs)

text \<open>
  Claim C2. For every signed or unsigned integer type of the specification and every
  value that the width of the type can represent, parsing the decimal text of the value
  with base 0 succeeds and stores exactly that value.
\<close>

theorem decimal_round_trip:
  assumes "spec_supported ty" "representable ty v"
  shows "strtoi_generic (format_decimal v) ty res num0 = Some (0, v)"
proof -
  have "\<not> (is_unsigned ty \<and> v < 0)"
    using assms(2) unsigned_min [of ty] by (auto simp: representable_def)
  then show ?thesis
    using assms
    by (auto simp: strtoi_generic_def strtoi_base_generic_spec spec_outcome_def spec_parse_def
        valid_base_def format_decimal_numeral)
qed

theorem decimal_round_trip_witness:
  "spec_supported T_schar \<and> representable T_schar (- 128)
   \<and> format_decimal (- 128) = ''-128''
   \<and> strtoi_generic ''-128'' T_schar 7 0 = Some (0, - 128)
   \<and> spec_supported T_int \<and> representable T_int (- 2147483648)
   \<and> format_decimal (- 2147483648) = ''-2147483648''
   \<and> strtoi_generic ''-2147483648'' T_int 7 0 = Some (0, - 2147483648)
   \<and> spec_supported T_ullong \<and> representable T_ullong 18446744073709551615
   \<and> format_decimal 18446744073709551615 = ''18446744073709551615''
   \<and> strtoi_generic ''18446744073709551615'' T_ullong 7 0 = Some (0, 18446744073709551615)"
proof -
  have a: "format_decimal (- 128) = ''-128''"
    and b: "format_decimal 18446744073709551615 = ''18446744073709551615''"
    and c: "format_decimal (- 2147483648) = ''-2147483648''"
    by (simp_all add: format_decimal_def decimal.simps digit_char_def char_of_eq_iff)
  have r: "representable T_schar (- 128)" "representable T_int (- 2147483648)"
    "representable T_ullong 18446744073709551615"
    by (simp_all add: representable_def type_min_def type_max_def)
  have s: "spec_supported T_schar" "spec_supported T_int" "spec_supported T_ullong"
    by (simp_all add: spec_supported_def)
  show ?thesis
    using decimal_round_trip [OF s(1) r(1), of 7 0]
      decimal_round_trip [OF s(2) r(2), of 7 0]
      decimal_round_trip [OF s(3) r(3), of 7 0]
    by (simp add: a b c r s)
qed

text \<open>
  Claim C3 says that a base outside \<open>{0} \<union> [2, 36]\<close> gives the unsupported-base error for
  every text and every supported destination type. The code does not deliver this: for
  such a base the library stores nothing in \<^verbatim>\<open>*endptr\<close> and sets \<^verbatim>\<open>errno\<close> to \<^verbatim>\<open>EINVAL\<close>,
  and \<^verbatim>\<open>strtoi_generic_func\<close> compares and dereferences its uninitialised \<^verbatim>\<open>endptr\<close>
  before it tests \<^verbatim>\<open>errno\<close>, so the call has no defined result. The \<^verbatim>\<open>errno\<close> test that
  comes too late would return \<^verbatim>\<open>-EINVAL\<close>, the error number of an invalid format; the
  code has no error number of its own for an unsupported base.
\<close>

theorem unsupported_base_undefined:
  assumes "spec_supported ty" "\<not> valid_base base"
  shows "strtoi_base_generic str base ty res num0 = None
       \<and> endptr (if is_unsigned ty then strtoull str base else strtoll str base) = None
       \<and> errno (if is_unsigned ty then strtoull str base else strtoll str base) = EINVAL"
  using assms unsupported_base_none [OF assms, of str res num0]
  by (simp add: endptr_unset_strtoll endptr_unset_strtoull)

theorem unsupported_base_undefined_witness:
  "spec_supported T_int \<and> \<not> valid_base 37
   \<and> strtoi_base_generic ''12'' 37 T_int 7 0 = None
   \<and> endptr (strtoll ''12'' 37) = None
   \<and> errno (strtoll ''12'' 37) = EINVAL
   \<and> strtoi_base_generic ''abc'' 1 T_uchar 7 0 = None"
  using unsupported_base_undefined [of T_int 37 "''12''" 7 0]
    unsupported_base_undefined [of T_uchar 1 "''abc''" 7 0]
  by (simp add: spec_supported_def valid_base_def)

text \<open>
  Claim C4. Into an \<^verbatim>\<open>unsigned char\<close>, \<^verbatim>\<open>"255"\<close> parses to 255 and \<^verbatim>\<open>"256"\<close> is out of
  range; into a \<^verbatim>\<open>signed char\<close>, \<^verbatim>\<open>"-128"\<close> parses to -128, \<^verbatim>\<open>"-129"\<close> is out of range,
  \<^verbatim>\<open>"127"\<close> parses to 127 and \<^verbatim>\<open>"128"\<close> is out of range. This holds with base 0 and with
  base 10.
\<close>

theorem eight_bit_boundaries:
  "strtoi_generic ''255'' T_uchar res num0 = Some (0, 255)
   \<and> strtoi_generic ''256'' T_uchar res num0 = Some (- ERANGE, res)
   \<and> strtoi_generic ''-128'' T_schar res num0 = Some (0, - 128)
   \<and> strtoi_generic ''-129'' T_schar res num0 = Some (- ERANGE, res)
   \<and> strtoi_generic ''127'' T_schar res num0 = Some (0, 127)
   \<and> strtoi_generic ''128'' T_schar res num0 = Some (- ERANGE, res)
   \<and> strtoi_base_generic ''255'' 10 T_uchar res num0 = Some (0, 255)
   \<and> strtoi_base_generic ''256'' 10 T_uchar res num0 = Some (- ERANGE, res)
   \<and> strtoi_base_generic ''-128'' 10 T_schar res num0 = Some (0, - 128)
   \<and> strtoi_base_generic ''-129'' 10 T_schar res num0 = Some (- ERANGE, res)
   \<and> strtoi_base_generic ''127'' 10 T_schar res num0 = Some (0, 127)
   \<and> strtoi_base_generic ''128'' 10 T_schar res num0 = Some (- ERANGE, res)"
  by (simp add: eval_defs)

theorem eight_bit_boundaries_witness:
  "strtoi_generic ''255'' T_uchar 0 0 = Some (0, 255)
   \<and> strtoi_generic ''256'' T_uchar 0 0 = Some (- ERANGE, 0)"
  using eight_bit_boundaries [of 0 0] by simp

text \<open>
  Claim C5. For every supported destination type and every supported base the call
  returns \<^verbatim>\<open>-EINVAL\<close> and leaves \<^verbatim>\<open>*res\<close> alone when the text is empty, consists of white
  space only, contains no digit of the base, ends with a character that is no digit of
  the base, or, in general, is not a numeral as a whole; \<^verbatim>\<open>"123abc"\<close> with base 0 or 10 is
  such a text. A valid prefix is never truncated into a success: when 0 is returned, the
  whole text is a numeral.
\<close>

theorem invalid_format_rejected:
  assumes "spec_supported ty" "valid_base base"
  shows "(str = [] \<or> list_all isspace str \<or> no_digits base str \<or> trailing_nondigit base str
            \<or> \<not> is_numeral base str
          \<longrightarrow> strtoi_base_generic str base ty res num0 = Some (- EINVAL, res))
       \<and> (\<forall>v. strtoi_base_generic str base ty res num0 = Some (0, v) \<longrightarrow> is_numeral base str)
       \<and> strtoi_base_generic ''123abc'' 0 ty res num0 = Some (- EINVAL, res)
       \<and> strtoi_base_generic ''123abc'' 10 ty res num0 = Some (- EINVAL, res)"
proof -
  have a: "str = [] \<or> list_all isspace str \<or> no_digits base str \<or> trailing_nondigit base str
            \<or> \<not> is_numeral base str \<Longrightarrow> \<not> is_numeral base str"
    using whitespace_not_numeral [of str base] no_digits_not_numeral [of base str]
      trailing_not_numeral [of base str]
    by auto
  have b: "trailing_nondigit 0 ''123abc''" "trailing_nondigit 10 ''123abc''"
    by (simp_all add: trailing_nondigit_def spec_base_def spec_unsigned_part_def isspace_def
        spec_hex_prefix_def valid_digit_def digit_val_def)
  have v: "valid_base 0" "valid_base 10" by (simp_all add: valid_base_def)
  have c: "strtoi_base_generic ''123abc'' 0 ty res num0 = Some (- EINVAL, res)"
    "strtoi_base_generic ''123abc'' 10 ty res num0 = Some (- EINVAL, res)"
    using b trailing_not_numeral not_numeral_EINVAL [OF assms(1)] v by blast+
  show ?thesis
    using a c not_numeral_EINVAL [OF assms] success_is_numeral [of str base ty res num0]
    by blast
qed

theorem invalid_format_rejected_witness:
  "spec_supported T_int \<and> valid_base 10 \<and> valid_base 0
   \<and> strtoi_base_generic [] 10 T_int 7 0 = Some (- EINVAL, 7)
   \<and> list_all isspace '' '' \<and> strtoi_base_generic '' '' 10 T_int 7 0 = Some (- EINVAL, 7)
   \<and> no_digits 10 ''+x'' \<and> strtoi_base_generic ''+x'' 10 T_int 7 0 = Some (- EINVAL, 7)
   \<and> trailing_nondigit 0 ''0x1g''
   \<and> strtoi_base_generic ''0x1g'' 0 T_int 7 0 = Some (- EINVAL, 7)
   \<and> strtoi_base_generic ''123abc'' 10 T_int 7 0 = Some (- EINVAL, 7)"
proof -
  have t: "spec_supported T_int" by (simp add: spec_supported_def)
  have v: "valid_base 10" "valid_base 0" by (simp_all add: valid_base_def)
  have a: "list_all isspace '' ''" by (simp add: isspace_def)
  have b: "no_digits 10 ''+x''"
    by (simp add: no_digits_def spec_base_def valid_digit_def digit_val_def)
  have c: "trailing_nondigit 0 ''0x1g''"
    by (simp add: trailing_nondigit_def spec_base_def spec_unsigned_part_def isspace_def
        spec_hex_prefix_def valid_digit_def digit_val_def)
  show ?thesis
    using t v a b c invalid_format_rejected [OF t v(1), of "[]" 7 0]
      invalid_format_rejected [OF t v(1), of "'' ''" 7 0]
      invalid_format_rejected [OF t v(1), of "''+x''" 7 0]
      invalid_format_rejected [OF t v(2), of "''0x1g''" 7 0]
    by simp
qed




text \<open>
  Claim C7. If the type of the destination is none of the recognised signed and unsigned
  integer types, the call returns the unsupported-type error \<^verbatim>\<open>-ENOTSUP\<close> at once: the
  result is the same for every string and every base, and \<^verbatim>\<open>*res\<close> keeps its value.
\<close>

theorem unsupported_type_immediate:
  assumes "STRTOI_GENERIC_TYPENAME ty = STRTOI_GENERIC_TYPENAME_OTHER"
  shows "strtoi_base_generic str base ty res num0 = Some (- ENOTSUP, res)"
  using assms
  by (simp add: strtoi_base_generic_def strtoi_generic_func_def ENOTSUP_def)

theorem unsupported_type_immediate_witness:
  "STRTOI_GENERIC_TYPENAME T_other = STRTOI_GENERIC_TYPENAME_OTHER
   \<and> strtoi_base_generic ''42'' 10 T_other 7 0 = Some (- ENOTSUP, 7)
   \<and> strtoi_base_generic ''zz'' 99 T_other 7 0 = Some (- ENOTSUP, 7)"
  using unsupported_type_immediate [of T_other "''42''" 10 7 0]
    unsupported_type_immediate [of T_other "''zz''" 99 7 0]
  by simp

text \<open>
  Claim C8, as amended. For every signed destination type and every call that passes the
  base and format checks (a supported base, and the call does not return \<^verbatim>\<open>-EINVAL\<close>), the
  call returns \<^verbatim>\<open>-ERANGE\<close> exactly when \<^verbatim>\<open>strtoll\<close> itself reported a range error, or the
  accumulator is less than the minimum of the type, or is positive and exceeds, compared
  as unsigned 64-bit values, the maximum; otherwise the accumulator is stored, and the
  cast to the destination type keeps its value. With a supported base the call always
  returns. As stated, without the range error of \<^verbatim>\<open>strtoll\<close> and for every text, the
  claim fails.
\<close>

theorem signed_range_check:
  assumes "is_signed ty" "valid_base base"
  shows "\<exists>ret res'. strtoi_base_generic str base ty res num0 = Some (ret, res')
     \<and> (ret \<noteq> - EINVAL \<longrightarrow>
         (ret = - ERANGE \<longleftrightarrow>
            errno (strtoll str base) = ERANGE
            \<or> ret_val (strtoll str base) <s STRTOI_GENERIC_INTMIN ty
            \<or> (0 <s ret_val (strtoll str base)
                \<and> STRTOI_GENERIC_INTMAX ty < ret_val (strtoll str base)))
       \<and> (ret \<noteq> - ERANGE \<longrightarrow>
            (ret, res') = (0, cast_to ty (ret_val (strtoll str base)))
            \<and> cast_to ty (ret_val (strtoll str base)) = sint (ret_val (strtoll str base))))"
proof -
  note f = signed_facts [OF assms(1)]
  obtain e where e: "endptr (strtoll str base) = Some e"
    using assms(2) endptr_unset_strtoll(1) [of str base] by auto
  show ?thesis
    using e f(1) f(2) signed_cast [OF assms(1), of "ret_val (strtoll str base)"]
    by (auto simp: strtoi_base_generic_def strtoi_generic_func_def Let_def consts_defs
        split: if_splits)
qed

theorem signed_range_check_witness:
  "is_signed T_schar \<and> valid_base 10
   \<and> strtoi_base_generic ''128'' 10 T_schar 7 0 = Some (- ERANGE, 7)
   \<and> errno (strtoll ''128'' 10) = 0
   \<and> 0 <s ret_val (strtoll ''128'' 10)
   \<and> STRTOI_GENERIC_INTMAX T_schar < ret_val (strtoll ''128'' 10)
   \<and> strtoi_base_generic ''-128'' 10 T_schar 7 0 = Some (0, - 128)
   \<and> sint (ret_val (strtoll ''-128'' 10)) = - 128"
proof -
  have a: "strtoi_base_generic ''128'' 10 T_schar 7 0 = Some (- ERANGE, 7)"
    "strtoi_base_generic ''-128'' 10 T_schar 7 0 = Some (0, - 128)"
    "ret_val (strtoll ''128'' 10) = 128" "ret_val (strtoll ''-128'' 10) = - 128"
    "errno (strtoll ''128'' 10) = 0"
    by (simp_all add: eval_defs)
  show ?thesis
    using signed_range_check [of T_schar 10 "''128''" 7 0]
      signed_range_check [of T_schar 10 "''-128''" 7 0]
    by (simp add: a consts_defs STRTOI_GENERIC_INTMAX_def word_sless_alt valid_base_def)
qed

theorem signed_range_check_counterexample:
  "strtoi_base_generic ''9223372036854775808'' 10 T_llong 7 0 = Some (- ERANGE, 7)
   \<and> \<not> (ret_val (strtoll ''9223372036854775808'' 10) <s STRTOI_GENERIC_INTMIN T_llong
        \<or> (0 <s ret_val (strtoll ''9223372036854775808'' 10)
            \<and> STRTOI_GENERIC_INTMAX T_llong < ret_val (strtoll ''9223372036854775808'' 10)))
   \<and> strtoi_base_generic ''12x'' 10 T_int 7 0 = Some (- EINVAL, 7)
   \<and> \<not> (ret_val (strtoll ''12x'' 10) <s STRTOI_GENERIC_INTMIN T_int
        \<or> (0 <s ret_val (strtoll ''12x'' 10)
            \<and> STRTOI_GENERIC_INTMAX T_int < ret_val (strtoll ''12x'' 10)))"
  by (simp add: eval_defs)

text \<open>
  Claim C9. Whenever the macro returns a non-zero value, \<^verbatim>\<open>*res\<close> holds afterwards what
  it held before: the parsed value is stored only when 0 is returned. The same holds for
  \<^verbatim>\<open>strtoi_generic_func\<close> and \<^verbatim>\<open>*num\<close>.
\<close>

theorem error_leaves_res_unchanged:
  "(strtoi_base_generic str base ty res num0 = Some (ret, res') \<and> ret \<noteq> 0 \<longrightarrow> res' = res)
   \<and> (strtoi_generic_func str min_v max_v type base num = Some (r, num') \<and> r \<noteq> 0
        \<longrightarrow> num' = num)"
proof -
  have "res' = res"
    if "strtoi_base_generic str base ty res num0 = Some (ret, res')" "ret \<noteq> 0"
  proof -
    from that(1) obtain n where
      f: "strtoi_generic_func str (STRTOI_GENERIC_INTMIN ty) (STRTOI_GENERIC_INTMAX ty)
            (STRTOI_GENERIC_TYPENAME ty) base num0 = Some (ret, n)"
      and r: "res' = (if ret \<ge> 0 then cast_to ty n else res)"
      by (auto simp: strtoi_base_generic_def split: option.splits)
    from func_error_keeps_num [OF f that(2)] r show ?thesis by simp
  qed
  moreover have "num' = num"
    if "strtoi_generic_func str min_v max_v type base num = Some (r, num')" "r \<noteq> 0"
    using func_error_keeps_num [OF that] by simp
  ultimately show ?thesis by blast
qed

theorem error_leaves_res_unchanged_witness:
  "strtoi_base_generic ''-129'' 10 T_schar 5 0 = Some (- ERANGE, 5) \<and> - ERANGE \<noteq> 0"
  using error_leaves_res_unchanged [of "''-129''" 10 T_schar 5 0 "- ERANGE" 5]
  by (simp add: eval_defs)

text \<open>
  Claim C10. Parsing into a variable of plain \<^verbatim>\<open>char\<close> type returns the unsupported-type
  error for every string and base: the type dispatch sends plain \<^verbatim>\<open>char\<close> to
  \<^verbatim>\<open>STRTOI_GENERIC_TYPENAME_OTHER\<close>, although the minimum and maximum selections list it
  with \<^verbatim>\<open>CHAR_MIN\<close> and \<^verbatim>\<open>CHAR_MAX\<close>.
\<close>

theorem plain_char_unsupported:
  "strtoi_base_generic str base T_char res num0 = Some (- ENOTSUP, res)
   \<and> STRTOI_GENERIC_TYPENAME T_char = STRTOI_GENERIC_TYPENAME_OTHER
   \<and> inner_STRTOI_GENERIC_INTMIN T_char = CHAR_MIN
   \<and> inner_STRTOI_GENERIC_INTMAX T_char = CHAR_MAX"
  by (simp add: strtoi_base_generic_def strtoi_generic_func_def ENOTSUP_def)

theorem plain_char_unsupported_witness:
  "strtoi_base_generic ''65'' 10 T_char 0 0 = Some (- ENOTSUP, 0)"
  using plain_char_unsupported [of "''65''" 10 0 0] by simp

end
